theory Spec2Isabelle
  imports Main
begin

section \<open>JavaScript strings and numbers used by the topology designer\<close>

text \<open>
  Strings are lists of code units below 256. The helpers below model the built-in
  string operations that \<^verbatim>\<open>ContainerLab.js\<close> calls: \<^verbatim>\<open>trim\<close>, \<^verbatim>\<open>split\<close> with a
  one-character separator, \<^verbatim>\<open>join\<close>, \<^verbatim>\<open>parseInt(s, 10)\<close>, \<^verbatim>\<open>includes\<close>,
  \<^verbatim>\<open>endsWith\<close> and the conversion of a non-negative integer to its decimal text.
\<close>

definition js_ws :: "char \<Rightarrow> bool" where
  "js_ws c = ((of_char c :: nat) \<in> {9, 10, 11, 12, 13, 32, 160})"

definition trim :: "string \<Rightarrow> string" where
  "trim s = rev (dropWhile js_ws (rev (dropWhile js_ws s)))"

definition is_digit :: "char \<Rightarrow> bool" where
  "is_digit c = (48 \<le> (of_char c :: nat) \<and> (of_char c :: nat) \<le> 57)"

definition digit_val :: "char \<Rightarrow> nat" where
  "digit_val c = of_char c - 48"

definition dec_val :: "string \<Rightarrow> nat" where
  "dec_val s = foldl (\<lambda>a c. 10 * a + digit_val c) 0 s"

text \<open>
  \<^verbatim>\<open>parseInt(s, 10)\<close>: leading white space is skipped, one sign is read, then the longest
  run of decimal digits; no digit gives \<^verbatim>\<open>NaN\<close>, which is \<open>None\<close> here. The value is
  an exact integer; the source only compares it with small constants or, for node numbers,
  is used below \<open>2 ^ 53\<close>, where JavaScript numbers are exact as well.
\<close>

definition parseInt10 :: "string \<Rightarrow> int option" where
  "parseInt10 s =
     (let t = dropWhile js_ws s;
          neg = (case t of [] \<Rightarrow> False | c # _ \<Rightarrow> c = CHR ''-'');
          u = (case t of [] \<Rightarrow> [] | c # r \<Rightarrow> if c = CHR ''-'' \<or> c = CHR ''+'' then r else t);
          z = takeWhile is_digit u
      in if z = [] then None
         else Some (if neg then - int (dec_val z) else int (dec_val z)))"

fun split_on :: "char \<Rightarrow> string \<Rightarrow> string list" where
  "split_on sep [] = [[]]"
| "split_on sep (c # cs) =
     (if c = sep then [] # split_on sep cs
      else (case split_on sep cs of [] \<Rightarrow> [[c]] | p # ps \<Rightarrow> (c # p) # ps))"

fun join_with :: "string \<Rightarrow> string list \<Rightarrow> string" where
  "join_with sep [] = []"
| "join_with sep [p] = p"
| "join_with sep (p # q # ps) = p @ sep @ join_with sep (q # ps)"

definition digit_char :: "nat \<Rightarrow> char" where
  "digit_char d = char_of (48 + d)"

function show_nat :: "nat \<Rightarrow> string" where
  "show_nat n = (if n < 10 then [digit_char n] else show_nat (n div 10) @ [digit_char (n mod 10)])"
  by pat_completeness auto
termination
  by (relation "measure id") auto

declare show_nat.simps [simp del]

definition show_int :: "int \<Rightarrow> string" where
  "show_int i = (if i < 0 then CHR ''-'' # show_nat (nat (- i)) else show_nat (nat i))"

section \<open>Management address allocation\<close>

text \<open>
  \<^verbatim>\<open>generateIpsFromSubnet(subnet, count)\<close>. The loop
  \<^verbatim>\<open>for (let i = 0; i < count; i++)\<close> is \<open>ip_loop\<close>; \<^verbatim>\<open>break\<close> returns the
  addresses collected so far. The mask is parsed and range-checked and not used again.
\<close>

function ip_loop :: "int list \<Rightarrow> nat \<Rightarrow> nat \<Rightarrow> string list \<Rightarrow> string list" where
  "ip_loop baseIp count i generatedIps =
     (if i < count then
        (let hostNum = i + 2 in
         if hostNum \<ge> 255 then generatedIps
         else ip_loop baseIp count (i + 1)
                (generatedIps @ [join_with ''.'' (map show_int (baseIp[3 := int hostNum]))]))
      else generatedIps)"
  by pat_completeness auto
termination
  by (relation "measure (\<lambda>(baseIp, count, i, generatedIps). count - i)") auto

declare ip_loop.simps [simp del]

definition generateIpsFromSubnet :: "string \<Rightarrow> nat \<Rightarrow> string list" where
  "generateIpsFromSubnet subnet count =
     (if subnet = [] \<or> trim subnet = [] then []
      else
        let parts = split_on CHR ''/'' subnet in
        if length parts \<noteq> 2 then []
        else
          let baseIpStr = parts ! 0 in
          (case parseInt10 (parts ! 1) of
             None \<Rightarrow> []
           | Some maskv \<Rightarrow>
               if maskv < 0 \<or> maskv > 32 then []
               else
                 let ipParts = split_on CHR ''.'' baseIpStr in
                 if length ipParts \<noteq> 4 then []
                 else
                   let baseIp = map parseInt10 ipParts in
                   if \<exists>part \<in> set baseIp. (case part of None \<Rightarrow> True | Some v \<Rightarrow> v < 0 \<or> v > 255)
                   then []
                   else ip_loop (map the baseIp) count 0 []))"

section \<open>Interface names\<close>

text \<open>
  \<^verbatim>\<open>validateInterface\<close> tests the name against
  \<^verbatim>\<open>/^eth[1-9][0-9]?$|^eth[1-4][0-9]$|^eth5[0-4]$/\<close>. Each alternative is anchored at
  both ends, so each is a test on the whole string.
\<close>

definition in_range :: "char \<Rightarrow> char \<Rightarrow> char \<Rightarrow> bool" where
  "in_range lo hi c = ((of_char lo :: nat) \<le> of_char c \<and> (of_char c :: nat) \<le> of_char hi)"

definition re_alt1 :: "string \<Rightarrow> bool" where
  "re_alt1 s = (case s of
       [e, t, h, a] \<Rightarrow> [e, t, h] = ''eth'' \<and> in_range CHR ''1'' CHR ''9'' a
     | [e, t, h, a, b] \<Rightarrow> [e, t, h] = ''eth'' \<and> in_range CHR ''1'' CHR ''9'' a \<and> in_range CHR ''0'' CHR ''9'' b
     | _ \<Rightarrow> False)"

definition re_alt2 :: "string \<Rightarrow> bool" where
  "re_alt2 s = (case s of
       [e, t, h, a, b] \<Rightarrow> [e, t, h] = ''eth'' \<and> in_range CHR ''1'' CHR ''4'' a \<and> in_range CHR ''0'' CHR ''9'' b
     | _ \<Rightarrow> False)"

definition re_alt3 :: "string \<Rightarrow> bool" where
  "re_alt3 s = (case s of
       [e, t, h, a, b] \<Rightarrow> [e, t, h] = ''eth'' \<and> a = CHR ''5'' \<and> in_range CHR ''0'' CHR ''4'' b
     | _ \<Rightarrow> False)"

definition validateInterface :: "string \<Rightarrow> bool" where
  "validateInterface interfaceName = (re_alt1 interfaceName \<or> re_alt2 interfaceName \<or> re_alt3 interfaceName)"

text \<open>
  \<^verbatim>\<open>s.includes(p)\<close>, \<^verbatim>\<open>s.endsWith(p)\<close> and \<^verbatim>\<open>s.replace(p, r)\<close> for a string
  pattern (the first occurrence is replaced).
\<close>

fun starts_with :: "string \<Rightarrow> string \<Rightarrow> bool" where
  "starts_with s [] = True"
| "starts_with [] (p # ps) = False"
| "starts_with (c # cs) (p # ps) = (c = p \<and> starts_with cs ps)"

fun js_includes :: "string \<Rightarrow> string \<Rightarrow> bool" where
  "js_includes [] p = (p = [])"
| "js_includes (c # cs) p = (starts_with (c # cs) p \<or> js_includes cs p)"



section \<open>JavaScript objects as ordered key lists\<close>

text \<open>
  An object that is enumerated with \<^verbatim>\<open>Object.entries\<close> is a list of distinct keys in the
  order JavaScript enumerates them: keys that are array indices first, in ascending
  numeric order, then the other keys in insertion order. \<open>obj_set\<close> is the assignment
  \<^verbatim>\<open>o[k] = v\<close>. Keys are assumed not to name a property inherited from
  \<^verbatim>\<open>Object.prototype\<close> (\<open>inherited_name\<close>): for those a read of a missing key does
  not give \<^verbatim>\<open>undefined\<close>, and \<^verbatim>\<open>__proto__\<close> is not stored by assignment.
\<close>

definition is_array_index :: "string \<Rightarrow> bool" where
  "is_array_index k =
     (k \<noteq> [] \<and> (\<forall>c \<in> set k. is_digit c) \<and> (k = ''0'' \<or> hd k \<noteq> CHR ''0'') \<and>
      int (dec_val k) < 4294967295)"



definition obj_set :: "string \<Rightarrow> 'v \<Rightarrow> (string \<times> 'v) list \<Rightarrow> (string \<times> 'v) list" where
  "obj_set k v ob =
     (if k \<in> fst ` set ob then map (\<lambda>(k', v'). if k' = k then (k', v) else (k', v')) ob
      else if is_array_index k then
        takeWhile (\<lambda>(k', v'). is_array_index k' \<and> dec_val k' < dec_val k) ob @ [(k, v)] @
        dropWhile (\<lambda>(k', v'). is_array_index k' \<and> dec_val k' < dec_val k) ob
      else ob @ [(k, v)])"

section \<open>Graph, settings and form state\<close>

text \<open>
  A bind of a node is an object with a source and a target path when it comes from the
  node form, and a plain string when it comes from the form's reset value or from a
  parsed document.
\<close>

datatype bind = BindObj string string | BindStr string

text \<open>
  A graph node: \<^verbatim>\<open>id\<close>, \<^verbatim>\<open>position\<close> and the fields of \<^verbatim>\<open>data\<close>. A field that is
  \<^verbatim>\<open>undefined\<close> in the source is the empty string here; the source only tests these
  fields for truthiness or copies them. The rendering attribute \<^verbatim>\<open>type\<close> is constant.
\<close>

record node =
  node_id :: string
  position :: "int \<times> int"
  label :: string
  kind :: string
  image_f :: string
  binds :: "bind list"
  mgmtIp :: string
  ipv6MgmtIp :: string
  startupConfig :: string
  customFields :: "(string \<times> string) list"

text \<open>An edge; an interface that is \<^verbatim>\<open>undefined\<close> is \<open>None\<close>.\<close>

record edge =
  edge_id :: string
  source :: string
  target :: string
  sourceInterface :: "string option"
  targetInterface :: "string option"

record kind_config =
  showStartupConfig :: bool
  kc_startupConfig :: string
  showImage :: bool
  kc_image :: string
  showExec :: bool
  kc_exec :: "string list"
  showBinds :: bool
  kc_binds :: "string list"

record kind_entry =
  kind_name :: string
  config :: kind_config

text \<open>
  The committed state of the component (the values that the effect
  \<^verbatim>\<open>Sync state changes with context\<close> copies into the topology context after every
  change).
\<close>

record store =
  nodes :: "node list"
  edges :: "edge list"
  yamlOutput :: string
  editableYaml :: string
  topologyName :: string
  showMgmt :: bool
  mgmtNetwork :: string
  ipv4Subnet :: string
  showIpv6 :: bool
  ipv6Subnet :: string
  showKind :: bool
  kinds :: "kind_entry list"
  showDefault :: bool
  defaultKind :: string
  nodeInterfaces :: "string \<rightharpoonup> string option list"
  isYamlValid :: bool
  yamlParseError :: string

record node_form =
  isModalOpen :: bool
  modalType :: string
  newNode :: "node option"
  nodeName :: string
  nodeNamePrefix :: string
  nodeKind :: string
  nodeImage :: string
  nodeBinds :: "bind list"
  nodeMgmtIp :: string
  nodeIpv6MgmtIp :: string
  nodeStartupConfig :: string
  nodeCustomFields :: "(string \<times> string) list"
  nodeCount :: nat
  isModifying :: bool
  nodeModalWarning :: bool
  showModifyNodeModal :: bool
  showOptionalSettings :: bool

record edge_form =
  isEdgeModalOpen :: bool
  newEdgeData :: "edge option"
  ef_sourceInterface :: string
  ef_targetInterface :: string
  isModifyingEdge :: bool
  edgeModalWarning :: bool
  errorMessage :: string
  showErrorModal :: bool

datatype js_error = TypeError

section \<open>The topology document\<close>

text \<open>
  The value that \<^verbatim>\<open>yaml.load\<close> returns and \<^verbatim>\<open>yaml.dump\<close> takes, for documents whose
  values have the shapes that \<open>buildYamlObject\<close> emits: strings, lists of strings and
  mappings. An absent key (or one that holds \<^verbatim>\<open>undefined\<close> or \<^verbatim>\<open>null\<close>) is
  \<open>None\<close>. In a node entry the six keys that the parser names
  (\<^verbatim>\<open>kind, image, binds, mgmt-ipv4, startup-config, env\<close>) are fields; every other key,
  \<^verbatim>\<open>mgmt-ipv6\<close> among them, is in \<open>dn_rest\<close> in key order. A link has two endpoint
  strings.
\<close>

record doc_node =
  dn_kind :: "string option"
  dn_image :: "string option"
  dn_binds :: "string list option"
  dn_mgmt_ipv4 :: "string option"
  dn_startup_config :: "string option"
  dn_env :: "(string \<times> string) list option"
  dn_rest :: "(string \<times> string) list"

record doc_kind =
  dk_startup_config :: "string option"
  dk_image :: "string option"
  dk_exec :: "string list option"
  dk_binds :: "string list option"

record doc_mgmt =
  dm_network :: "string option"
  dm_ipv4_subnet :: "string option"
  dm_ipv4_dash_subnet :: "string option"
  dm_ipv6_subnet :: "string option"
  dm_ipv6_dash_subnet :: "string option"

record doc_topology =
  dt_nodes :: "(string \<times> doc_node) list option"
  dt_links :: "(string \<times> string) list option"
  dt_defaults :: "string option option"
  dt_kinds :: "(string \<times> doc_kind) list option"

record document =
  d_name :: "string option"
  d_topology :: "doc_topology option"
  d_mgmt :: "doc_mgmt option"

text \<open>
  The result of \<^verbatim>\<open>yaml.load\<close>: it throws (with a message), or returns a mapping, or
  returns another value (\<^verbatim>\<open>undefined\<close> for an empty text, a scalar, a sequence), on
  which every property read of the source gives \<^verbatim>\<open>undefined\<close>.
\<close>

datatype loaded = LoadError string | LoadOther | LoadDoc document

text \<open>
  What the component takes from outside: the user name (\<^verbatim>\<open>user?.username\<close>,
  \<open>None\<close> when it is \<^verbatim>\<open>undefined\<close>) and the two functions of the YAML library.
\<close>

record env =
  username :: "string option"
  yaml_load :: "string \<Rightarrow> loaded"
  yaml_dump :: "document \<Rightarrow> string"

definition empty_doc_node :: doc_node where
  "empty_doc_node = \<lparr>dn_kind = None, dn_image = None, dn_binds = None, dn_mgmt_ipv4 = None,
     dn_startup_config = None, dn_env = None, dn_rest = []\<rparr>"

definition empty_doc_kind :: doc_kind where
  "empty_doc_kind = \<lparr>dk_startup_config = None, dk_image = None, dk_exec = None, dk_binds = None\<rparr>"

text \<open>\<^verbatim>\<open>a || b\<close> on strings that may be absent: the first non-empty one.\<close>

definition truthy :: "string option \<Rightarrow> bool" where
  "truthy v = (case v of None \<Rightarrow> False | Some s \<Rightarrow> s \<noteq> [])"

definition or_else :: "string option \<Rightarrow> string \<Rightarrow> string" where
  "or_else v d = (case v of None \<Rightarrow> d | Some s \<Rightarrow> if s = [] then d else s)"

section \<open>Graph to document: \<^verbatim>\<open>updateYaml\<close>\<close>

text \<open>\<^verbatim>\<open>existingConfig?.topology?.nodes?.[nodeKey] || {}\<close>\<close>

definition existingNode_of :: "loaded \<Rightarrow> string \<Rightarrow> doc_node" where
  "existingNode_of existingConfig nodeKey =
     (case existingConfig of
        LoadDoc d \<Rightarrow>
          (case d_topology d of
             None \<Rightarrow> empty_doc_node
           | Some t \<Rightarrow>
               (case dt_nodes t of
                  None \<Rightarrow> empty_doc_node
                | Some ns \<Rightarrow> (case map_of ns nodeKey of None \<Rightarrow> empty_doc_node | Some e \<Rightarrow> e)))
      | _ \<Rightarrow> empty_doc_node)"

definition validBinds_of :: "bind list \<Rightarrow> string list" where
  "validBinds_of bs =
     concat (map (\<lambda>b. case b of
                        BindObj src tgt \<Rightarrow> if src \<noteq> [] \<and> tgt \<noteq> [] then [src @ '':'' @ tgt] else []
                      | BindStr _ \<Rightarrow> []) bs)"

definition env_of_customFields :: "(string \<times> string) list \<Rightarrow> (string \<times> string) list" where
  "env_of_customFields cfs =
     foldl (\<lambda>ob (key, value). if key \<noteq> [] \<and> value \<noteq> [] then obj_set key value ob else ob) [] cfs"

text \<open>The body of \<^verbatim>\<open>updatedNodes.forEach\<close>: the entry written for one node.\<close>

definition node_entry :: "loaded \<Rightarrow> node \<Rightarrow> string \<times> doc_node" where
  "node_entry existingConfig n =
     (let nodeKey = (if node_id n \<noteq> [] then node_id n else label n);
          existingNode = existingNode_of existingConfig nodeKey;
          e1 = existingNode\<lparr>
                 dn_kind := (if kind n \<noteq> [] then Some (kind n) else dn_kind existingNode),
                 dn_image := (if image_f n \<noteq> [] then Some (image_f n) else dn_image existingNode)\<rparr>;
          e2 = (if length (binds n) > 0 then
                  (let validBinds = validBinds_of (binds n)
                   in if length validBinds > 0 then e1\<lparr>dn_binds := Some validBinds\<rparr> else e1)
                else (case dn_binds existingNode of
                        Some bs \<Rightarrow> e1\<lparr>dn_binds := Some bs\<rparr>
                      | None \<Rightarrow> e1));
          e3 = (if mgmtIp n \<noteq> [] then e2\<lparr>dn_mgmt_ipv4 := Some (mgmtIp n)\<rparr> else e2);
          e4 = (if ipv6MgmtIp n \<noteq> []
                then e3\<lparr>dn_rest := obj_set ''mgmt-ipv6'' (ipv6MgmtIp n) (dn_rest e3)\<rparr> else e3);
          e5 = (if startupConfig n \<noteq> [] \<and> trim (startupConfig n) \<noteq> []
                then e4\<lparr>dn_startup_config := Some (startupConfig n)\<rparr> else e4);
          e6 = (if \<exists>(key, value) \<in> set (customFields n). key \<noteq> [] \<and> value \<noteq> []
                then e5\<lparr>dn_env := Some (env_of_customFields (customFields n))\<rparr> else e5)
      in (nodeKey, e6))"

definition link_of_edge :: "edge \<Rightarrow> string \<times> string" where
  "link_of_edge e =
     (source e @ '':'' @ or_else (sourceInterface e) ''eth1'',
      target e @ '':'' @ or_else (targetInterface e) ''eth1'')"

definition kind_doc :: "kind_entry \<Rightarrow> doc_kind" where
  "kind_doc k =
     (let c = config k;
          k1 = (if showStartupConfig c \<and> trim (kc_startupConfig c) \<noteq> []
                then empty_doc_kind\<lparr>dk_startup_config := Some (kc_startupConfig c)\<rparr>
                else empty_doc_kind);
          k2 = (if showImage c \<and> trim (kc_image c) \<noteq> []
                then k1\<lparr>dk_image := Some (kc_image c)\<rparr> else k1);
          k3 = (if showExec c \<and> length (kc_exec c) > 0 \<and> trim (hd (kc_exec c)) \<noteq> []
                then k2\<lparr>dk_exec := Some (filter (\<lambda>x. trim x \<noteq> []) (kc_exec c))\<rparr> else k2);
          k4 = (if showBinds c \<and> length (kc_binds c) > 0 \<and> trim (hd (kc_binds c)) \<noteq> []
                then k3\<lparr>dk_binds := Some (filter (\<lambda>x. trim x \<noteq> []) (kc_binds c))\<rparr> else k3)
      in k4)"

text \<open>
  The topology name is qualified with the user name. \<^verbatim>\<open>includes(undefined)\<close> searches
  for the text \<^verbatim>\<open>undefined\<close>.
\<close>

definition qualified_name :: "string option \<Rightarrow> string \<Rightarrow> string" where
  "qualified_name user tname =
     (if js_includes tname (case user of None \<Rightarrow> ''undefined'' | Some u \<Rightarrow> u) then tname
      else or_else user [] @ ''-'' @ tname)"

definition buildYamlObject :: "env \<Rightarrow> store \<Rightarrow> node list \<Rightarrow> edge list \<Rightarrow> document" where
  "buildYamlObject ev s updatedNodes updatedEdges =
     (let existingConfig = (case yaml_load ev (yamlOutput s) of LoadDoc d \<Rightarrow> LoadDoc d | _ \<Rightarrow> LoadOther);
          nodeEntries = foldl (\<lambda>ob n. case node_entry existingConfig n of (k, e) \<Rightarrow> obj_set k e ob)
                          [] updatedNodes;
          links = (if length updatedEdges > 0 then Some (map link_of_edge updatedEdges) else None);
          mgmt = (if showMgmt s then
                    Some \<lparr>dm_network = Some (mgmtNetwork s), dm_ipv4_subnet = Some (ipv4Subnet s),
                          dm_ipv4_dash_subnet = None,
                          dm_ipv6_subnet = (if showIpv6 s \<and> ipv6Subnet s \<noteq> []
                                            then Some (ipv6Subnet s) else None),
                          dm_ipv6_dash_subnet = None\<rparr>
                  else None);
          defaults = (if showDefault s \<and> defaultKind s \<noteq> [] then Some (Some (defaultKind s)) else None);
          kindsDoc = (if showKind s \<and> length (kinds s) > 0 then
                        (let validKinds = filter (\<lambda>k. trim (kind_name k) \<noteq> []) (kinds s)
                         in if length validKinds > 0
                            then Some (foldl (\<lambda>ob k. obj_set (kind_name k) (kind_doc k) ob) [] validKinds)
                            else None)
                      else None)
      in \<lparr>d_name = Some (qualified_name (username ev) (topologyName s)),
          d_topology = Some \<lparr>dt_nodes = Some nodeEntries, dt_links = links,
                              dt_defaults = defaults, dt_kinds = kindsDoc\<rparr>,
          d_mgmt = mgmt\<rparr>)"

text \<open>
  \<^verbatim>\<open>updateYaml\<close> stores one text as both \<^verbatim>\<open>yamlOutput\<close> and \<^verbatim>\<open>editableYaml\<close>; the
  function below is that text. The state read is the one the handler was created with.
\<close>

definition updateYaml :: "env \<Rightarrow> store \<Rightarrow> node list \<Rightarrow> edge list \<Rightarrow> string" where
  "updateYaml ev s updatedNodes updatedEdges =
     (if length updatedNodes = 0 \<and> \<not> showMgmt s \<and> \<not> showKind s \<and> \<not> showDefault s \<and> topologyName s = []
      then []
      else yaml_dump ev (buildYamlObject ev s updatedNodes updatedEdges))"

definition set_yaml :: "string \<Rightarrow> store \<Rightarrow> store" where
  "set_yaml y s = s\<lparr>yamlOutput := y, editableYaml := y\<rparr>"

section \<open>Document to graph: \<^verbatim>\<open>handleYamlChange\<close>\<close>

text \<open>
  One entry of \<^verbatim>\<open>topology.nodes\<close> becomes a graph node. Its position is computed from
  the entry's index. The custom fields are the entries of \<^verbatim>\<open>env\<close> when the entry has
  one, and otherwise the entries of every key that is not one of the six named keys.
\<close>

definition parsed_node :: "nat \<Rightarrow> string \<times> doc_node \<Rightarrow> node" where
  "parsed_node index entry =
     (case entry of (nName, nodeData) \<Rightarrow>
        let fields0 = (case dn_env nodeData of Some envv \<Rightarrow> envv | None \<Rightarrow> dn_rest nodeData);
            fields1 = (if length fields0 = 0 then [([], [])] else fields0)
        in \<lparr>node_id = nName,
            position = (100 + int (index mod 3) * 200, 100 + int (index div 3) * 150),
            label = nName,
            kind = or_else (dn_kind nodeData) [],
            image_f = or_else (dn_image nodeData) [],
            binds = map BindStr (case dn_binds nodeData of None \<Rightarrow> [] | Some bs \<Rightarrow> bs),
            mgmtIp = or_else (dn_mgmt_ipv4 nodeData) [],
            ipv6MgmtIp = or_else (map_of (dn_rest nodeData) ''mgmt-ipv6'') [],
            startupConfig = or_else (dn_startup_config nodeData) [],
            customFields = fields1\<rparr>)"

text \<open>\<^verbatim>\<open>const [a, b] = endpoint.split(':')\<close>\<close>

definition endpoint_parts :: "string \<Rightarrow> string \<times> string option" where
  "endpoint_parts ep =
     (case split_on CHR '':'' ep of
        [] \<Rightarrow> ([], None)
      | [a] \<Rightarrow> (a, None)
      | a # b # _ \<Rightarrow> (a, Some b))"

definition parsed_edge :: "nat \<Rightarrow> string \<times> string \<Rightarrow> edge" where
  "parsed_edge index link =
     (case link of (ep0, ep1) \<Rightarrow>
        case endpoint_parts ep0 of (src, srcIf) \<Rightarrow>
        case endpoint_parts ep1 of (tgt, tgtIf) \<Rightarrow>
          \<lparr>edge_id = ''edge_'' @ show_nat index, source = src, target = tgt,
           sourceInterface = srcIf, targetInterface = tgtIf\<rparr>)"

definition parsed_kind :: "string \<times> doc_kind \<Rightarrow> kind_entry" where
  "parsed_kind entry =
     (case entry of (kindName, kindConfig) \<Rightarrow>
        \<lparr>kind_name = kindName,
         config = \<lparr>showStartupConfig = truthy (dk_startup_config kindConfig),
                   kc_startupConfig = or_else (dk_startup_config kindConfig) [],
                   showImage = truthy (dk_image kindConfig),
                   kc_image = or_else (dk_image kindConfig) [],
                   showExec = (case dk_exec kindConfig of None \<Rightarrow> False | Some l \<Rightarrow> length l \<noteq> 0),
                   kc_exec = (case dk_exec kindConfig of None \<Rightarrow> [[]] | Some l \<Rightarrow> l),
                   showBinds = (case dk_binds kindConfig of None \<Rightarrow> False | Some l \<Rightarrow> length l \<noteq> 0),
                   kc_binds = (case dk_binds kindConfig of None \<Rightarrow> [[]] | Some l \<Rightarrow> l)\<rparr>\<rparr>)"

text \<open>
  \<^verbatim>\<open>initializeNodeInterfacesFromYaml\<close>: the registry is replaced by one built from the
  links; a document without a link section leaves it as it was.
\<close>

definition register_endpoint ::
  "node list \<Rightarrow> string \<times> string option \<Rightarrow> (string \<rightharpoonup> string option list) \<Rightarrow> (string \<rightharpoonup> string option list)" where
  "register_endpoint currentNodes ep newInterfaces =
     (case ep of (nName, iface) \<Rightarrow>
        case find (\<lambda>n. label n = nName) currentNodes of
          None \<Rightarrow> newInterfaces
        | Some n \<Rightarrow>
            if node_id n \<noteq> []
            then newInterfaces(node_id n \<mapsto>
                   (case newInterfaces (node_id n) of None \<Rightarrow> [] | Some l \<Rightarrow> l) @ [iface])
            else newInterfaces)"

definition initializeNodeInterfacesFromYaml ::
  "env \<Rightarrow> string \<Rightarrow> node list \<Rightarrow> (string \<rightharpoonup> string option list) \<Rightarrow> (string \<rightharpoonup> string option list)" where
  "initializeNodeInterfacesFromYaml ev yamlContent currentNodes prev =
     (case yaml_load ev yamlContent of
        LoadDoc d \<Rightarrow>
          (case d_topology d of
             None \<Rightarrow> prev
           | Some t \<Rightarrow>
               (case dt_links t of
                  None \<Rightarrow> prev
                | Some links \<Rightarrow>
                    foldl (\<lambda>newInterfaces (ep0, ep1).
                             register_endpoint currentNodes (endpoint_parts ep1)
                               (register_endpoint currentNodes (endpoint_parts ep0) newInterfaces))
                          Map.empty links))
      | _ \<Rightarrow> prev)"

text \<open>The \<^verbatim>\<open>catch\<close> block of \<^verbatim>\<open>handleYamlChange\<close>.\<close>

definition yaml_failure :: "string \<Rightarrow> store \<Rightarrow> store" where
  "yaml_failure message s =
     s\<lparr>isYamlValid := False, yamlParseError := ''Error parsing YAML: '' @ message\<rparr>"

definition apply_mgmt :: "doc_mgmt option \<Rightarrow> store \<Rightarrow> store" where
  "apply_mgmt mg s =
     (case mg of
        None \<Rightarrow> s
      | Some m \<Rightarrow>
          let s1 = s\<lparr>showMgmt := True,
                     mgmtNetwork := or_else (dm_network m) (or_else (dm_network m) []),
                     ipv4Subnet := or_else (dm_ipv4_subnet m) (or_else (dm_ipv4_dash_subnet m) [])\<rparr>
          in if truthy (dm_ipv6_subnet m) \<or> truthy (dm_ipv6_dash_subnet m)
             then s1\<lparr>showIpv6 := True,
                     ipv6Subnet := or_else (dm_ipv6_subnet m) (or_else (dm_ipv6_dash_subnet m) [])\<rparr>
             else s1)"

definition apply_kinds :: "(string \<times> doc_kind) list option \<Rightarrow> store \<Rightarrow> store" where
  "apply_kinds ks s =
     (case ks of
        None \<Rightarrow> s
      | Some entries \<Rightarrow>
          let newKinds = map parsed_kind entries;
              s1 = s\<lparr>showKind := True\<rparr>
          in if length newKinds > 0 then s1\<lparr>kinds := newKinds\<rparr> else s1)"

definition apply_defaults :: "string option option \<Rightarrow> store \<Rightarrow> store" where
  "apply_defaults df s =
     (case df of
        None \<Rightarrow> s
      | Some k \<Rightarrow> s\<lparr>showDefault := True, defaultKind := or_else k []\<rparr>)"

definition handleYamlChange :: "env \<Rightarrow> string \<Rightarrow> node_form \<times> store \<Rightarrow> node_form \<times> store" where
  "handleYamlChange ev newYaml st =
     (case st of (f, s) \<Rightarrow>
        let s1 = s\<lparr>editableYaml := newYaml, yamlOutput := newYaml\<rparr> in
        case yaml_load ev newYaml of
          LoadError message \<Rightarrow> (f, yaml_failure message s1)
        | LoadOther \<Rightarrow> (f, yaml_failure ''Invalid YAML structure'' s1)
        | LoadDoc parsedYaml \<Rightarrow>
            let s2 = (if truthy (d_name parsedYaml)
                      then s1\<lparr>topologyName := or_else (d_name parsedYaml) []\<rparr> else s1)
            in case d_topology parsedYaml of
                 None \<Rightarrow> (f, yaml_failure ''Invalid YAML structure'' s2)
               | Some t \<Rightarrow>
                   (case dt_nodes t of
                      None \<Rightarrow> (f, yaml_failure ''Invalid YAML structure'' s2)
                    | Some docNodes \<Rightarrow>
                        let newNodes = map (\<lambda>(index, entry). parsed_node index entry)
                                         (enumerate 0 docNodes);
                            newEdges = map (\<lambda>(index, link). parsed_edge index link)
                                         (enumerate 0 (case dt_links t of None \<Rightarrow> [] | Some ls \<Rightarrow> ls));
                            s3 = s2\<lparr>nodes := newNodes, edges := newEdges,
                                    nodeInterfaces :=
                                      initializeNodeInterfacesFromYaml ev newYaml newNodes (nodeInterfaces s2),
                                    isYamlValid := True, yamlParseError := []\<rparr>;
                            f1 = (if length newNodes = 1
                                  then f\<lparr>nodeCustomFields := customFields (hd newNodes)\<rparr> else f)
                        in (f1, apply_defaults (dt_defaults t)
                                  (apply_kinds (dt_kinds t) (apply_mgmt (d_mgmt parsedYaml) s3)))))"

section \<open>Node operations\<close>
















section \<open>Edge operations\<close>

definition retract_interfaces ::
  "edge \<Rightarrow> (string \<rightharpoonup> string option list) \<Rightarrow> js_error + (string \<rightharpoonup> string option list)" where
  "retract_interfaces oldEdge prev =
     (case (prev (source oldEdge), prev (target oldEdge)) of
        (Some a, Some b) \<Rightarrow>
          Inr ((prev(source oldEdge \<mapsto> filter (\<lambda>i. i \<noteq> sourceInterface oldEdge) a))
                    (target oldEdge \<mapsto> filter (\<lambda>i. i \<noteq> targetInterface oldEdge) b))
      | _ \<Rightarrow> Inl TypeError)"

definition add_interfaces ::
  "edge \<Rightarrow> string \<Rightarrow> string \<Rightarrow> (string \<rightharpoonup> string option list) \<Rightarrow> (string \<rightharpoonup> string option list)" where
  "add_interfaces newEdge srcIf tgtIf prev =
     (prev(source newEdge \<mapsto> (case prev (source newEdge) of None \<Rightarrow> [] | Some l \<Rightarrow> l) @ [Some srcIf]))
          (target newEdge \<mapsto> (case prev (target newEdge) of None \<Rightarrow> [] | Some l \<Rightarrow> l) @ [Some tgtIf])"

definition is_duplicate :: "edge \<Rightarrow> string \<Rightarrow> string \<Rightarrow> edge \<Rightarrow> bool" where
  "is_duplicate newEdge srcIf tgtIf e =
     (source e = source newEdge \<and> target e = target newEdge \<and>
      sourceInterface e = Some srcIf \<and> targetInterface e = Some tgtIf)"

definition close_edge_form :: "edge_form \<Rightarrow> edge_form" where
  "close_edge_form ef =
     ef\<lparr>isEdgeModalOpen := False, ef_sourceInterface := [], ef_targetInterface := [],
        newEdgeData := None, edgeModalWarning := False\<rparr>"

definition invalid_interface_message :: string where
  "invalid_interface_message =
     ''Interface names must be in the format '' @ [CHR 0x22] @ ''eth'' @ [CHR 0x22] @
     '' followed by a number (1-54)''"

definition handleEdgeModalSubmit :: "env \<Rightarrow> edge_form \<times> store \<Rightarrow> js_error + edge_form \<times> store" where
  "handleEdgeModalSubmit ev st =
     (case st of (ef, s) \<Rightarrow>
        if trim (ef_sourceInterface ef) = [] \<or> trim (ef_targetInterface ef) = []
        then Inr (ef\<lparr>edgeModalWarning := True\<rparr>, s)
        else if \<not> validateInterface (ef_sourceInterface ef) \<or> \<not> validateInterface (ef_targetInterface ef)
        then Inr (ef\<lparr>errorMessage := invalid_interface_message,
                     showErrorModal := True\<rparr>, s)
        else case newEdgeData ef of
               None \<Rightarrow> Inl TypeError
             | Some ed \<Rightarrow>
                 let srcIf = ef_sourceInterface ef;
                     tgtIf = ef_targetInterface ef;
                     edgeId = (if isModifyingEdge ef then edge_id ed
                               else ''edge_'' @ source ed @ ''_'' @ target ed @ ''_'' @ srcIf @ ''_'' @ tgtIf);
                     newEdge = ed\<lparr>edge_id := edgeId, sourceInterface := Some srcIf,
                                  targetInterface := Some tgtIf\<rparr>;
                     retracted = (if isModifyingEdge ef then
                                    (case find (\<lambda>e. edge_id e = edge_id newEdge) (edges s) of
                                       None \<Rightarrow> Inr (nodeInterfaces s)
                                     | Some oldEdge \<Rightarrow> retract_interfaces oldEdge (nodeInterfaces s))
                                  else Inr (nodeInterfaces s))
                 in case retracted of
                      Inl err \<Rightarrow> Inl err
                    | Inr reg \<Rightarrow>
                        let s1 = s\<lparr>nodeInterfaces := add_interfaces newEdge srcIf tgtIf reg\<rparr> in
                        if isModifyingEdge ef then
                          (let updatedEdges = map (\<lambda>e. if edge_id e = edge_id newEdge then newEdge else e)
                                                (edges s)
                           in Inr (close_edge_form (ef\<lparr>isModifyingEdge := False\<rparr>),
                                   (set_yaml (updateYaml ev s (nodes s) updatedEdges) s1)
                                     \<lparr>edges := updatedEdges\<rparr>))
                        else
                          (case find (is_duplicate newEdge srcIf tgtIf) (edges s) of
                             Some duplicateEdge \<Rightarrow> Inr (close_edge_form ef, s1)
                           | None \<Rightarrow>
                               let updatedEdges = edges s @ [newEdge]
                               in Inr (close_edge_form ef,
                                       (set_yaml (updateYaml ev s (nodes s) updatedEdges) s1)
                                         \<lparr>edges := updatedEdges\<rparr>)))"

section \<open>Vocabulary of the statements\<close>







section \<open>Example states\<close>

text \<open>
  The initial values of the topology context and of the forms, a user, and a stand-in for
  the YAML library that loads nothing and dumps a fixed text.
\<close>

definition demo_env :: env where
  "demo_env = \<lparr>username = Some ''alice'', yaml_load = (\<lambda>t. LoadOther), yaml_dump = (\<lambda>d. ''rendered'')\<rparr>"

definition initial_store :: store where
  "initial_store = \<lparr>nodes = [], edges = [], yamlOutput = [], editableYaml = [], topologyName = [],
     showMgmt = False, mgmtNetwork = [], ipv4Subnet = [], showIpv6 = False, ipv6Subnet = [],
     showKind = False,
     kinds = [\<lparr>kind_name = [], config = \<lparr>showStartupConfig = False, kc_startupConfig = [],
                showImage = False, kc_image = [], showExec = False, kc_exec = [[]],
                showBinds = False, kc_binds = [[]]\<rparr>\<rparr>],
     showDefault = False, defaultKind = [], nodeInterfaces = Map.empty, isYamlValid = True,
     yamlParseError = []\<rparr>"

definition initial_node_form :: node_form where
  "initial_node_form = \<lparr>isModalOpen = False, modalType = ''create'', newNode = None, nodeName = [],
     nodeNamePrefix = [], nodeKind = ''ceos'', nodeImage = ''ceos:4.34.0F'',
     nodeBinds = [BindObj [] []], nodeMgmtIp = [], nodeIpv6MgmtIp = [], nodeStartupConfig = [],
     nodeCustomFields = [([], [])], nodeCount = 1, isModifying = False, nodeModalWarning = False,
     showModifyNodeModal = False, showOptionalSettings = False\<rparr>"

definition initial_edge_form :: edge_form where
  "initial_edge_form = \<lparr>isEdgeModalOpen = False, newEdgeData = None, ef_sourceInterface = [],
     ef_targetInterface = [], isModifyingEdge = False, edgeModalWarning = False,
     errorMessage = [], showErrorModal = False\<rparr>"


definition plain_node :: "string \<Rightarrow> node" where
  "plain_node n = \<lparr>node_id = n, position = (400, 200), label = n, kind = ''ceos'',
     image_f = ''ceos:4.34.1F'', binds = [BindStr []], mgmtIp = [], ipv6MgmtIp = [],
     startupConfig = [], customFields = [([], [])]\<rparr>"

definition link_edge :: "string \<Rightarrow> string \<Rightarrow> string \<Rightarrow> string \<Rightarrow> edge" where
  "link_edge a ai b bi =
     \<lparr>edge_id = ''edge_'' @ a @ ''_'' @ b @ ''_'' @ ai @ ''_'' @ bi, source = a, target = b,
      sourceInterface = Some ai, targetInterface = Some bi\<rparr>"

text \<open>What \<^verbatim>\<open>onConnect\<close> puts into the edge form for a new connection.\<close>

definition connect_form :: "string \<Rightarrow> string \<Rightarrow> string \<Rightarrow> string \<Rightarrow> edge_form" where
  "connect_form a ai b bi =
     initial_edge_form\<lparr>isEdgeModalOpen := True,
       newEdgeData := Some \<lparr>edge_id = [], source = a, target = b,
                             sourceInterface = None, targetInterface = None\<rparr>,
       ef_sourceInterface := ai, ef_targetInterface := bi\<rparr>"

definition two_node_store :: store where
  "two_node_store = initial_store\<lparr>nodes := map plain_node [''leaf1'', ''spine1''],
     topologyName := ''alice-lab'',
     nodeInterfaces := [''leaf1'' \<mapsto> [], ''spine1'' \<mapsto> []]\<rparr>"

definition linked_store :: store where
  "linked_store = two_node_store\<lparr>edges := [link_edge ''leaf1'' ''eth1'' ''spine1'' ''eth1''],
     nodeInterfaces := [''leaf1'' \<mapsto> [Some ''eth1''], ''spine1'' \<mapsto> [Some ''eth1'']]\<rparr>"



text \<open>
  A document with one node and a link to a node that it does not define, one that has a
  name and no topology, and a library stand-in that loads a given document from every
  text.
\<close>

definition plain_doc_node :: "string \<Rightarrow> doc_node" where
  "plain_doc_node k = empty_doc_node\<lparr>dn_kind := Some k\<rparr>"

definition ghost_doc :: document where
  "ghost_doc = \<lparr>d_name = Some ''alice-lab'',
     d_topology = Some \<lparr>dt_nodes = Some [(''a'', plain_doc_node ''linux'')],
                         dt_links = Some [(''a:eth1'', ''ghost:eth1'')],
                         dt_defaults = None, dt_kinds = None\<rparr>,
     d_mgmt = None\<rparr>"

definition name_only_doc :: document where
  "name_only_doc = \<lparr>d_name = Some ''other'', d_topology = None, d_mgmt = None\<rparr>"

definition loading_env :: "document \<Rightarrow> env" where
  "loading_env d = \<lparr>username = Some ''alice'', yaml_load = (\<lambda>t. LoadDoc d), yaml_dump = (\<lambda>d. ''rendered'')\<rparr>"

text \<open>
  The result of \<^verbatim>\<open>yaml.load\<close> has no \<^verbatim>\<open>topology.nodes\<close>, and the name the document
  gives, if it gives one.
\<close>

definition lacks_nodes :: "loaded \<Rightarrow> bool" where
  "lacks_nodes l =
     (case l of
        LoadError message \<Rightarrow> False
      | LoadOther \<Rightarrow> True
      | LoadDoc d \<Rightarrow> (case d_topology d of None \<Rightarrow> True | Some t \<Rightarrow> dt_nodes t = None))"

definition name_after :: "loaded \<Rightarrow> string \<Rightarrow> string" where
  "name_after l current =
     (case l of LoadDoc d \<Rightarrow> or_else (d_name d) current | _ \<Rightarrow> current)"

text \<open>The (source, target, sourceInterface, targetInterface) tuple of an edge.\<close>

definition edge_tuple :: "edge \<Rightarrow> string \<times> string \<times> string option \<times> string option" where
  "edge_tuple e = (source e, target e, sourceInterface e, targetInterface e)"











section \<open>Vocabulary of the round trip\<close>










section \<open>Properties of the address allocator\<close>









lemma trim_Nil_iff: "trim s = [] \<longleftrightarrow> (\<forall>c \<in> set s. js_ws c)"
proof -
  have dw: "(\<forall>c \<in> set (dropWhile js_ws s). js_ws c) \<longleftrightarrow> dropWhile js_ws s = []"
  proof (cases "dropWhile js_ws s")
    case Nil
    show ?thesis unfolding Nil by simp
  next
    case (Cons x xs)
    then have "\<not> js_ws x" using hd_dropWhile[of js_ws s] by simp
    with Cons show ?thesis by auto
  qed
  have "trim s = [] \<longleftrightarrow> dropWhile js_ws (rev (dropWhile js_ws s)) = []"
    by (simp add: trim_def)
  also have "\<dots> \<longleftrightarrow> (\<forall>c \<in> set (dropWhile js_ws s). js_ws c)"
    by (simp only: dropWhile_eq_Nil_conv set_rev)
  also have "\<dots> \<longleftrightarrow> dropWhile js_ws s = []" by (rule dw)
  also have "\<dots> \<longleftrightarrow> (\<forall>c \<in> set s. js_ws c)"
    by (simp only: dropWhile_eq_Nil_conv)
  finally show ?thesis .
qed


















text \<open>
  Claim C8 at the input the specification names: for \<^verbatim>\<open>10.0.0.0/30\<close> and ten addresses
  the allocator returns all ten, \<^verbatim>\<open>10.0.0.2\<close> to \<^verbatim>\<open>10.0.0.11\<close>. The broadcast address
  of the /30, \<^verbatim>\<open>10.0.0.3\<close>, is among them, and eight of them lie outside the subnet.
\<close>

theorem generateIpsFromSubnet_slash30:
  "generateIpsFromSubnet ''10.0.0.0/30'' 10 =
     [''10.0.0.2'', ''10.0.0.3'', ''10.0.0.4'', ''10.0.0.5'', ''10.0.0.6'', ''10.0.0.7'',
      ''10.0.0.8'', ''10.0.0.9'', ''10.0.0.10'', ''10.0.0.11'']"
  by code_simp

section \<open>Properties of the interface validator\<close>

lemma re_alt1_iff:
  "re_alt1 s \<longleftrightarrow> (\<exists>a. s = ''eth'' @ [a] \<and> in_range CHR ''1'' CHR ''9'' a) \<or>
     (\<exists>a b. s = ''eth'' @ [a, b] \<and> in_range CHR ''1'' CHR ''9'' a \<and> in_range CHR ''0'' CHR ''9'' b)"
  by (auto simp: re_alt1_def split: list.splits)

lemma re_alt2_imp: "re_alt2 s \<Longrightarrow> re_alt1 s"
  by (auto simp: re_alt1_def re_alt2_def in_range_def split: list.splits)

lemma re_alt3_imp: "re_alt3 s \<Longrightarrow> re_alt1 s"
  by (auto simp: re_alt1_def re_alt3_def in_range_def split: list.splits)

lemma validateInterface_alt1: "validateInterface s \<longleftrightarrow> re_alt1 s"
  using re_alt2_imp re_alt3_imp by (auto simp: validateInterface_def)

lemma digit_char_val: "is_digit c \<Longrightarrow> digit_char (digit_val c) = c"
  by (simp add: is_digit_def digit_char_def digit_val_def)

lemma of_char_digit_char: "d < 10 \<Longrightarrow> (of_char (digit_char d) :: nat) = 48 + d"
  by (simp add: digit_char_def)

lemma show_nat_one: "n < 10 \<Longrightarrow> show_nat n = [digit_char n]"
  by (subst show_nat.simps) simp

lemma show_nat_two:
  assumes "10 \<le> n" "n < 100"
  shows "show_nat n = [digit_char (n div 10), digit_char (n mod 10)]"
proof -
  have "n div 10 < 10" using assms by arith
  then have "show_nat (n div 10) = [digit_char (n div 10)]" by (rule show_nat_one)
  moreover have "show_nat n = show_nat (n div 10) @ [digit_char (n mod 10)]"
    using assms by (subst show_nat.simps) simp
  ultimately show ?thesis by simp
qed

lemma in_range_digit: "in_range CHR ''0'' CHR ''9'' c \<longleftrightarrow> is_digit c"
  by (simp add: in_range_def is_digit_def)

lemma in_range_19: "in_range CHR ''1'' CHR ''9'' c \<longleftrightarrow> is_digit c \<and> 1 \<le> digit_val c"
  by (auto simp: in_range_def is_digit_def digit_val_def)

lemma digit_val_lt: "is_digit c \<Longrightarrow> digit_val c < 10"
  by (auto simp: is_digit_def digit_val_def)

lemma validateInterface_iff_aux:
  "validateInterface s \<longleftrightarrow> (\<exists>n. 1 \<le> n \<and> n \<le> 99 \<and> s = ''eth'' @ show_nat n)"
proof
  assume "validateInterface s"
  then have "re_alt1 s" by (simp add: validateInterface_alt1)
  then consider a where "s = ''eth'' @ [a]" "in_range CHR ''1'' CHR ''9'' a"
    | a b where "s = ''eth'' @ [a, b]" "in_range CHR ''1'' CHR ''9'' a" "in_range CHR ''0'' CHR ''9'' b"
    unfolding re_alt1_iff by blast
  then show "\<exists>n. 1 \<le> n \<and> n \<le> 99 \<and> s = ''eth'' @ show_nat n"
  proof cases
    case 1
    then have d: "is_digit a" "1 \<le> digit_val a" "digit_val a < 10"
      by (simp_all add: in_range_19 digit_val_lt)
    then have "show_nat (digit_val a) = [a]" by (simp add: show_nat_one digit_char_val)
    with 1 d show ?thesis by (intro exI[of _ "digit_val a"]) simp
  next
    case 2
    then have d: "is_digit a" "1 \<le> digit_val a" "digit_val a < 10" "is_digit b" "digit_val b < 10"
      by (simp_all add: in_range_19 in_range_digit digit_val_lt)
    let ?n = "10 * digit_val a + digit_val b"
    have n: "10 \<le> ?n" "?n < 100" "?n div 10 = digit_val a" "?n mod 10 = digit_val b"
      using d by simp_all
    then have "show_nat ?n = [a, b]"
      using d by (simp add: show_nat_two digit_char_val)
    with 2 n show ?thesis by (intro exI[of _ ?n]) simp
  qed
next
  assume "\<exists>n. 1 \<le> n \<and> n \<le> 99 \<and> s = ''eth'' @ show_nat n"
  then obtain n where n: "1 \<le> n" "n \<le> 99" "s = ''eth'' @ show_nat n" by blast
  show "validateInterface s"
  proof (cases "n < 10")
    case True
    then have "s = ''eth'' @ [digit_char n]" using n by (simp add: show_nat_one)
    moreover have "in_range CHR ''1'' CHR ''9'' (digit_char n)"
      using True n by (simp add: in_range_def of_char_digit_char)
    ultimately show ?thesis by (simp add: validateInterface_alt1 re_alt1_iff)
  next
    case False
    then have "s = ''eth'' @ [digit_char (n div 10), digit_char (n mod 10)]"
      using n by (simp add: show_nat_two)
    moreover have "1 \<le> n div 10 \<and> n div 10 < 10" using False n by arith
    then have "in_range CHR ''1'' CHR ''9'' (digit_char (n div 10))"
      by (simp add: in_range_def of_char_digit_char)
    moreover have "in_range CHR ''0'' CHR ''9'' (digit_char (n mod 10))"
      by (simp add: in_range_def of_char_digit_char)
    ultimately show ?thesis by (simp add: validateInterface_alt1 re_alt1_iff)
  qed
qed

lemma validateInterface_not_blank: "validateInterface s \<Longrightarrow> trim s \<noteq> []"
proof -
  assume v: "validateInterface s"
  then have "s \<noteq> [] \<and> hd s = CHR ''e''"
    by (auto simp: validateInterface_alt1 re_alt1_iff)
  then have "CHR ''e'' \<in> set s" by (cases s) auto
  moreover have "\<not> js_ws CHR ''e''" by (simp add: js_ws_def)
  ultimately show ?thesis by (auto simp: trim_Nil_iff)
qed

text \<open>
  Claim C4 on the code: the validator accepts exactly \<^verbatim>\<open>eth\<close> followed by the decimal
  text of a number from 1 to 99 (the first alternative of the pattern admits every
  two-digit number), not 1 to 54; and a new edge \<^verbatim>\<open>leaf1:eth55\<close> to \<^verbatim>\<open>spine1:eth1\<close>
  is committed without an error.
\<close>

theorem validateInterface_accepts_1_to_99:
  "(validateInterface s \<longleftrightarrow> (\<exists>n. 1 \<le> n \<and> n \<le> 99 \<and> s = ''eth'' @ show_nat n)) \<and>
   (case handleEdgeModalSubmit demo_env (connect_form ''leaf1'' ''eth55'' ''spine1'' ''eth1'', two_node_store) of
      Inl err \<Rightarrow> False
    | Inr (ef, st) \<Rightarrow>
        map edge_tuple (edges st) = [(''leaf1'', ''spine1'', Some ''eth55'', Some ''eth1'')] \<and>
        \<not> showErrorModal ef \<and> errorMessage ef = [])"
proof
  show "validateInterface s \<longleftrightarrow> (\<exists>n. 1 \<le> n \<and> n \<le> 99 \<and> s = ''eth'' @ show_nat n)"
    by (rule validateInterface_iff_aux)
  show "case handleEdgeModalSubmit demo_env (connect_form ''leaf1'' ''eth55'' ''spine1'' ''eth1'', two_node_store) of
      Inl err \<Rightarrow> False
    | Inr (ef, st) \<Rightarrow>
        map edge_tuple (edges st) = [(''leaf1'', ''spine1'', Some ''eth55'', Some ''eth1'')] \<and>
        \<not> showErrorModal ef \<and> errorMessage ef = []"
    by code_simp
qed

theorem validateInterface_accepts_1_to_99_witness:
  "validateInterface ''eth55'' \<and> validateInterface ''eth99'' \<and> \<not> validateInterface ''eth100''"
proof -
  have iff: "validateInterface s \<longleftrightarrow> (\<exists>n. 1 \<le> n \<and> n \<le> 99 \<and> s = ''eth'' @ show_nat n)" for s
    by (rule validateInterface_accepts_1_to_99[THEN conjunct1])
  have s55: "show_nat 55 = ''55''" and s99: "show_nat 99 = ''99''" by code_simp+
  have "\<exists>n. 1 \<le> n \<and> n \<le> 99 \<and> ''eth55'' = ''eth'' @ show_nat n"
    by (rule exI[of _ 55]) (simp add: s55)
  then have a: "validateInterface ''eth55''" by (simp only: iff)
  have "\<exists>n. 1 \<le> n \<and> n \<le> 99 \<and> ''eth99'' = ''eth'' @ show_nat n"
    by (rule exI[of _ 99]) (simp add: s99)
  then have b: "validateInterface ''eth99''" by (simp only: iff)
  have c: "\<not> validateInterface ''eth100''"
  proof
    assume "validateInterface ''eth100''"
    then have "\<exists>n. 1 \<le> n \<and> n \<le> 99 \<and> ''eth100'' = ''eth'' @ show_nat n" by (simp only: iff)
    then obtain n where n: "1 \<le> n" "n \<le> 99" "''eth100'' = ''eth'' @ show_nat n" by blast
    from n(3) have "show_nat n = ''100''" by simp
    then have "length (show_nat n) = 3" by simp
    moreover have "length (show_nat n) \<le> 2"
      using n(2) by (cases "n < 10") (simp_all add: show_nat_one show_nat_two)
    ultimately show False by simp
  qed
  from a b c show ?thesis by blast
qed

section \<open>Properties of the document parser\<close>

text \<open>
  Claim C5 at a document whose only link names a node \<^verbatim>\<open>ghost\<close> that it does not
  define: the parse succeeds, the graph has the node \<^verbatim>\<open>a\<close> alone, and the edge from
  \<^verbatim>\<open>a\<close> to \<^verbatim>\<open>ghost\<close> is in the graph. Only the interface registry skips the unknown
  node.
\<close>

theorem handleYamlChange_keeps_dangling_edge:
  "(case handleYamlChange (loading_env ghost_doc) ''text'' (initial_node_form, initial_store) of
     (f, s) \<Rightarrow> (map node_id (nodes s), map edge_tuple (edges s), isYamlValid s,
                (nodeInterfaces s) ''a'', (nodeInterfaces s) ''ghost'')) =
   ([''a''], [(''a'', ''ghost'', Some ''eth1'', Some ''eth1'')], True, Some [Some ''eth1''], None)"
  by code_simp

text \<open>
  Claim C10, as the code has it. When the loaded value has no \<^verbatim>\<open>topology.nodes\<close> the
  handler keeps the submitted text as both copies, sets the invalid flag and the message
  \<^verbatim>\<open>Error parsing YAML: Invalid YAML structure\<close>, and leaves every other part of the
  state as it was, the topology name excepted: a non-empty \<^verbatim>\<open>name\<close> of the document
  has replaced it before the missing section is noticed.
\<close>

theorem handleYamlChange_without_nodes:
  assumes "lacks_nodes (yaml_load ev newYaml)"
  shows "handleYamlChange ev newYaml (f, s) =
     (f, s\<lparr>yamlOutput := newYaml, editableYaml := newYaml,
           topologyName := name_after (yaml_load ev newYaml) (topologyName s),
           isYamlValid := False,
           yamlParseError := ''Error parsing YAML: Invalid YAML structure''\<rparr>)"
proof (cases "yaml_load ev newYaml")
  case (LoadError message)
  with assms show ?thesis by (simp add: lacks_nodes_def)
next
  case LoadOther
  then show ?thesis
    by (simp add: handleYamlChange_def name_after_def yaml_failure_def)
next
  case (LoadDoc d)
  have nm: "truthy (d_name d) \<Longrightarrow> or_else (d_name d) (topologyName s) = or_else (d_name d) []"
    "\<not> truthy (d_name d) \<Longrightarrow> or_else (d_name d) (topologyName s) = topologyName s"
    by (simp_all add: truthy_def or_else_def split: option.splits)
  show ?thesis
  proof (cases "d_topology d")
    case None
    with LoadDoc nm show ?thesis
      by (simp add: handleYamlChange_def name_after_def yaml_failure_def Let_def)
  next
    case (Some t)
    with assms LoadDoc have "dt_nodes t = None" by (simp add: lacks_nodes_def)
    with LoadDoc Some nm show ?thesis
      by (simp add: handleYamlChange_def name_after_def yaml_failure_def Let_def)
  qed
qed

theorem handleYamlChange_without_nodes_witness:
  "handleYamlChange (loading_env name_only_doc) ''name: other'' (initial_node_form, linked_store) =
     (initial_node_form,
      linked_store\<lparr>yamlOutput := ''name: other'', editableYaml := ''name: other'',
                   topologyName := ''other'', isYamlValid := False,
                   yamlParseError := ''Error parsing YAML: Invalid YAML structure''\<rparr>)"
proof -
  have h: "lacks_nodes (yaml_load (loading_env name_only_doc) ''name: other'')"
    by (simp add: loading_env_def lacks_nodes_def name_only_doc_def)
  have n: "name_after (yaml_load (loading_env name_only_doc) ''name: other'') (topologyName linked_store) = ''other''"
    by (simp add: loading_env_def name_after_def name_only_doc_def or_else_def)
  show ?thesis
    using handleYamlChange_without_nodes[OF h, of initial_node_form linked_store] by (simp only: n)
qed

text \<open>
  Claim C10 as it is written fails: a document that is only \<^verbatim>\<open>name: other\<close> is
  refused, and the topology name is \<^verbatim>\<open>other\<close> afterwards.
\<close>

theorem handleYamlChange_without_nodes_counterexample:
  "topologyName linked_store = ''alice-lab'' \<and>
   (case handleYamlChange (loading_env name_only_doc) ''name: other'' (initial_node_form, linked_store) of
      (f, s) \<Rightarrow> (topologyName s, isYamlValid s, map node_id (nodes s))) =
   (''other'', False, [''leaf1'', ''spine1''])"
  by code_simp

section \<open>Properties of the edge form\<close>

text \<open>
  Claim C3, as the code has it. A new edge whose tuple is already in the graph is not
  added: the edge list and the document stay as they were. No validation error is
  raised: the error message and the error flag are untouched, no warning is set, and
  the form closes as after a successful submit.
\<close>

theorem duplicate_edge_dropped_silently:
  assumes "validateInterface (ef_sourceInterface ef)" "validateInterface (ef_targetInterface ef)"
    "\<not> isModifyingEdge ef" "newEdgeData ef = Some ed"
    "\<exists>e \<in> set (edges s). edge_tuple e =
        (source ed, target ed, Some (ef_sourceInterface ef), Some (ef_targetInterface ef))"
  shows "\<exists>ef' s'. handleEdgeModalSubmit ev (ef, s) = Inr (ef', s') \<and>
           edges s' = edges s \<and> yamlOutput s' = yamlOutput s \<and> editableYaml s' = editableYaml s \<and>
           showErrorModal ef' = showErrorModal ef \<and> errorMessage ef' = errorMessage ef \<and>
           \<not> edgeModalWarning ef' \<and> \<not> isEdgeModalOpen ef'"
proof -
  let ?ne = "ed\<lparr>edge_id := ''edge_'' @ source ed @ ''_'' @ target ed @ ''_'' @ ef_sourceInterface ef @ ''_'' @ ef_targetInterface ef,
                 sourceInterface := Some (ef_sourceInterface ef), targetInterface := Some (ef_targetInterface ef)\<rparr>"
  obtain e where e: "e \<in> set (edges s)" "is_duplicate ?ne (ef_sourceInterface ef) (ef_targetInterface ef) e"
    using assms(5) by (auto simp: edge_tuple_def is_duplicate_def)
  then have "find (is_duplicate ?ne (ef_sourceInterface ef) (ef_targetInterface ef)) (edges s) \<noteq> None"
    by (auto simp: find_None_iff)
  then obtain d where d: "find (is_duplicate ?ne (ef_sourceInterface ef) (ef_targetInterface ef)) (edges s) = Some d"
    by auto
  show ?thesis
    using assms(1-4) d validateInterface_not_blank[OF assms(1)] validateInterface_not_blank[OF assms(2)]
    by (simp add: handleEdgeModalSubmit_def Let_def close_edge_form_def)
qed

theorem duplicate_edge_dropped_silently_witness:
  "\<exists>ef' s'. handleEdgeModalSubmit demo_env (connect_form ''leaf1'' ''eth1'' ''spine1'' ''eth1'', linked_store) =
       Inr (ef', s') \<and>
     edges s' = [link_edge ''leaf1'' ''eth1'' ''spine1'' ''eth1''] \<and>
     \<not> showErrorModal ef' \<and> errorMessage ef' = [] \<and> \<not> edgeModalWarning ef' \<and> \<not> isEdgeModalOpen ef'"
proof -
  let ?ef = "connect_form ''leaf1'' ''eth1'' ''spine1'' ''eth1''"
  let ?ed = "\<lparr>edge_id = [], source = ''leaf1'', target = ''spine1'',
               sourceInterface = None, targetInterface = None\<rparr>"
  have v: "validateInterface (ef_sourceInterface ?ef)" "validateInterface (ef_targetInterface ?ef)"
    by code_simp+
  have m: "\<not> isModifyingEdge ?ef" "newEdgeData ?ef = Some ?ed"
    by (simp_all add: connect_form_def initial_edge_form_def)
  have d: "\<exists>e \<in> set (edges linked_store). edge_tuple e =
        (source ?ed, target ?ed, Some (ef_sourceInterface ?ef), Some (ef_targetInterface ?ef))"
    by (simp add: linked_store_def two_node_store_def initial_store_def link_edge_def edge_tuple_def
          connect_form_def initial_edge_form_def)
  have e: "edges linked_store = [link_edge ''leaf1'' ''eth1'' ''spine1'' ''eth1'']"
    "\<not> showErrorModal ?ef" "errorMessage ?ef = []"
    by (simp_all add: linked_store_def two_node_store_def connect_form_def initial_edge_form_def)
  show ?thesis
    using duplicate_edge_dropped_silently[OF v m d, of demo_env] e by auto
qed

text \<open>
  Claim C3 as it is written fails in the two-node scenario: the second submit of
  \<^verbatim>\<open>leaf1:eth1\<close> to \<^verbatim>\<open>spine1:eth1\<close> leaves one edge, and shows no error and no warning.
\<close>

theorem duplicate_edge_counterexample:
  "(case handleEdgeModalSubmit demo_env (connect_form ''leaf1'' ''eth1'' ''spine1'' ''eth1'', linked_store) of
      Inl err \<Rightarrow> None
    | Inr (ef, s) \<Rightarrow> Some (length (edges s), showErrorModal ef, errorMessage ef, edgeModalWarning ef,
                           isEdgeModalOpen ef)) =
   Some (1, False, [], False, False)"
  by code_simp

section \<open>Properties of node creation\<close>




























section \<open>Properties of the rename\<close>















section \<open>Uniqueness in reachable states\<close>










section \<open>Properties of the round trip\<close>




























end
